theory Spec2Isabelle
  imports Main
begin

section \<open>C integers and the values shared by both sides\<close>

text \<open>
  Values of the C type \<open>int\<close> are modelled as mathematical integers; a conversion that
  can leave the 32-bit range is written out. \<open>long\<close> and \<open>size_t\<close> are 64 bits wide
  (the LP64 model of the platforms the daemon is built for).
\<close>

definition int_of_long :: "int \<Rightarrow> int" where
  \<comment> \<open>assignment of a wider integer to an \<open>int\<close>: the value is reduced modulo \<open>2^32\<close>\<close>
  "int_of_long v = (v + 2147483648) mod 4294967296 - 2147483648"

definition size_t_of_int :: "int \<Rightarrow> int" where
  \<comment> \<open>conversion of an \<open>int\<close> to the unsigned 64-bit \<open>size_t\<close>\<close>
  "size_t_of_int v = v mod 18446744073709551616"

datatype fault = OutOfBounds | SignedOverflow | BadDescriptor

definition int_mul :: "int \<Rightarrow> int \<Rightarrow> fault + int" where
  \<comment> \<open>\<open>a * b\<close> on \<open>int\<close>: a product outside the range of \<open>int\<close> is undefined behaviour\<close>
  "int_mul a b =
     (if - 2147483648 \<le> a * b \<and> a * b \<le> 2147483647 then Inr (a * b) else Inl SignedOverflow)"

abbreviation NUL :: char where "NUL \<equiv> CHR 0x00"
abbreviation CR :: char where "CR \<equiv> CHR 0x0D"
abbreviation LF :: char where "LF \<equiv> CHR 0x0A"

text \<open>
  \<open>AudioTrack\<close> (spd_audio_plugin.h). \<open>samples\<close> is a pointer in the source; the model
  carries the bytes of the object it points to, so that an access past its end is visible.
\<close>

record AudioTrack =
  bits :: int
  num_channels :: int
  sample_rate :: int
  num_samples :: int
  samples :: string

text \<open>
  Modelled from the spec: the enumeration \<open>AudioFormat\<close> is declared in a header that is
  not among the sources; the spec names its two values, 16-bit linear PCM in little- and in
  big-endian byte order, and the decoder reads a format as a decimal integer. The
  enumerators are numbered in that order.
\<close>

definition SPD_AUDIO_LE :: int where "SPD_AUDIO_LE = 0"

section \<open>The synthesis session (baratinoo.c)\<close>

datatype session_event =
    DBG string
  | TtsOutput AudioTrack int
  | BufferDelete nat

text \<open>
  The globals of the module. \<open>baratinoo_text_buffer\<close> is a pointer: \<open>None\<close> is \<open>NULL\<close>,
  \<open>Some b\<close> the handle the engine returned. \<open>baratinoo_semaphore\<close> is the value of the
  counting semaphore. \<open>session_log\<close> records, in order, the debug lines written and the
  calls made to the output path and to the engine's buffer destructor.
\<close>

record session =
  baratinoo_stop_requested :: bool
  baratinoo_close_requested :: bool
  baratinoo_semaphore :: nat
  baratinoo_text_buffer :: "nat option"
  baratinoo_voice :: int
  session_log :: "session_event list"

text \<open>
  What the module calls and this file does not define: the output path of module_utils,
  the three \<open>UPDATE_*PARAMETER\<close> macros (their net effect on \<open>baratinoo_voice\<close>), the
  engine's buffer constructor and initialiser, and the SSML stripper.
\<close>

record module_env =
  module_tts_output :: "AudioTrack \<Rightarrow> int \<Rightarrow> int"
  update_parameters :: "int \<Rightarrow> int"
  BCinputTextBufferNew :: "int \<Rightarrow> nat option"
  BCinputTextBufferInit :: "nat \<Rightarrow> string \<Rightarrow> bool"
  module_strip_ssml :: "string \<Rightarrow> string"

definition dbg :: "string \<Rightarrow> session \<Rightarrow> session" where
  "dbg m s = s\<lparr>session_log := session_log s @ [DBG m]\<rparr>"

definition sem_post :: "session \<Rightarrow> session" where
  "sem_post s = s\<lparr>baratinoo_semaphore := Suc (baratinoo_semaphore s)\<rparr>"

definition c_div2 :: "int \<Rightarrow> int" where
  \<comment> \<open>\<open>length / 2\<close> in C: the quotient is truncated towards zero\<close>
  "c_div2 n = (if 0 \<le> n then n div 2 else - ((- n) div 2))"

definition baratinoo_output_signal_cb ::
  "module_env \<Rightarrow> string \<Rightarrow> int \<Rightarrow> session \<Rightarrow> int \<times> session" where
  "baratinoo_output_signal_cb env address len s =
     (if baratinoo_stop_requested s
      then (0, dbg ''Not playing message because it got stopped'' s)
      else
        let track = \<lparr>bits = 16, num_channels = 1, sample_rate = 16000,
                     num_samples = c_div2 len, samples = address\<rparr>;
            s1 = dbg ''Playing part of the message'' s;
            r = module_tts_output env track SPD_AUDIO_LE;
            s2 = s1\<lparr>session_log := session_log s1 @ [TtsOutput track SPD_AUDIO_LE]\<rparr>;
            s3 = (if r < 0 then dbg ''ERROR: failed to play the track'' s2 else s2)
        in (0, s3))"

definition baratinoo_speaking :: "session \<Rightarrow> bool" where
  "baratinoo_speaking s = (baratinoo_text_buffer s \<noteq> None)"

text \<open>
  \<open>module_speak\<close>. On the \<open>err\<close> path the buffer is deleted but the global keeps its
  value, as in the source. The result is \<open>bytes\<close> converted to \<open>int\<close>. (The sources
  hold a second copy of the module, which asserts the ranges of the settings first and
  prepares the text as the engine's own markup; \<open>baratinoo_speaking\<close>, the busy check,
  \<open>module_stop\<close> and the output callback read the same in both.)
\<close>

definition module_speak ::
  "module_env \<Rightarrow> string \<Rightarrow> nat \<Rightarrow> int \<Rightarrow> session \<Rightarrow> int \<times> session" where
  "module_speak env data bytes msgtype s =
     (let s0 = dbg ''write()'' s in
      if baratinoo_speaking s0
      then (0, dbg ''Speaking when requested to write'' s0)
      else
        let s1 = s0\<lparr>baratinoo_stop_requested := False\<rparr>;
            s2 = s1\<lparr>baratinoo_voice := update_parameters env (baratinoo_voice s1)\<rparr>;
            s3 = s2\<lparr>baratinoo_text_buffer := BCinputTextBufferNew env (baratinoo_voice s2)\<rparr>
        in case baratinoo_text_buffer s3 of
             None \<Rightarrow> (0, dbg ''Failed to allocate input buffer'' s3)
           | Some b \<Rightarrow>
               let stripped = module_strip_ssml env data in
               if \<not> BCinputTextBufferInit env b stripped
               then
                 let s4 = dbg ''Failed to initialize input buffer'' s3
                 in (0, s4\<lparr>session_log := session_log s4 @ [BufferDelete b]\<rparr>)
               else
                 let s4 = sem_post s3
                 in (int_of_long (int bytes), dbg ''Baratinoo: leaving write() normally'' s4))"

definition module_stop :: "session \<Rightarrow> int \<times> session" where
  "module_stop s =
     (let s0 = dbg ''Baratinoo: stop()'' s in
      if \<not> baratinoo_stop_requested s0
      then (0, sem_post (s0\<lparr>baratinoo_stop_requested := True\<rparr>))
      else (0, s0))"

section \<open>The audio output library (spd_audio.c)\<close>

text \<open>
  \<open>AudioID\<close>: the open device. Of the plugin's function table only \<open>play\<close> is called by
  the functions modelled here; \<open>None\<close> is a \<open>NULL\<close> function pointer, and the function
  gives the status the backend returns for a track.
\<close>

record AudioID =
  function_play :: "(AudioTrack \<Rightarrow> int) option"
  id_format :: int
  id_volume :: int

datatype audio_event =
    MSG nat string
  | Stderr string
  | Play AudioTrack
  | Close int
  | SourceDestroy nat
  | SourceUnref nat
  | Free int

text \<open>
  The byte-swapping loop of \<open>spd_audio_play\<close>. \<open>i\<close> is the offset of \<open>out_ptr\<close> in the
  sample buffer and \<open>e\<close> the offset of \<open>out_end\<close>. Each round reads and writes
  \<open>out_ptr[0]\<close> and \<open>out_ptr[1]\<close>; outside the buffer that is a fault.
\<close>

function swap_loop :: "nat \<Rightarrow> int \<Rightarrow> string \<Rightarrow> fault + string" where
  "swap_loop i e buf =
     (if int i < e
      then (if i + 1 < length buf
            then swap_loop (i + 2) e (buf[i := buf ! (i + 1), i + 1 := buf ! i])
            else Inl OutOfBounds)
      else Inr buf)"
  by pat_completeness auto
termination
  by (relation "measure (\<lambda>(i, e, buf). nat (e - int i))") auto

declare swap_loop.simps [simp del]

definition spd_audio_play ::
  "AudioID option \<Rightarrow> AudioTrack \<Rightarrow> int \<Rightarrow> fault + (int \<times> audio_event list)" where
  "spd_audio_play aid track format =
     (case aid of
        None \<Rightarrow> Inr (- 1, [Stderr ''Play not supported on this device''])
      | Some h \<Rightarrow>
          (case function_play h of
             None \<Rightarrow> Inr (- 1, [Stderr ''Play not supported on this device''])
           | Some play \<Rightarrow>
               (case (if format \<noteq> id_format h
                      then (case int_mul (num_samples track) 2 of
                              Inl f \<Rightarrow> Inl f
                            | Inr a \<Rightarrow>
                                (case int_mul a (num_channels track) of
                                   Inl f \<Rightarrow> Inl f
                                 | Inr e \<Rightarrow> swap_loop 0 e (samples track)))
                      else Inr (samples track)) of
                  Inl f \<Rightarrow> Inl f
                | Inr buf \<Rightarrow>
                    let track' = track\<lparr>samples := buf\<rparr>
                    in Inr (play track', [MSG 5 ''playing audio on audio_id %d'', Play track']))))"

definition spd_audio_set_volume ::
  "AudioID option \<Rightarrow> int \<Rightarrow> int \<times> AudioID option \<times> audio_event list" where
  "spd_audio_set_volume aid vol =
     (if vol > 100 \<or> vol < - 100
      then (- 1, aid, [Stderr ''Requested volume out of range''])
      else case aid of
             None \<Rightarrow> (- 1, None, [Stderr ''audio id is NULL in spd_audio_set_volume''])
           | Some h \<Rightarrow> (0, Some (h\<lparr>id_volume := vol\<rparr>), []))"

section \<open>The transport decoder and the connection set\<close>

text \<open>
  What a descriptor still has to deliver: the segments the peer sends before it closes, in
  order of arrival. A \<open>read\<close> returns bytes of the first segment that is not empty, at
  most as many as were asked for; once no segment is left the peer has closed and \<open>read\<close>
  returns no byte. The segmentation stands for the moments at which data arrives, so a
  \<open>read\<close> may return fewer bytes than asked for although more follow.
\<close>

type_synonym stream = "string list"

fun read_fd :: "nat \<Rightarrow> stream \<Rightarrow> string \<times> stream" where
  "read_fd m [] = ([], [])"
| "read_fd m (seg # rest) =
     (if seg = [] then read_fd m rest
      else (take m seg, if m < length seg then drop m seg # rest else rest))"

fun fionread :: "stream \<Rightarrow> nat" where
  \<comment> \<open>\<open>ioctl(fd, FIONREAD, &nread)\<close>: the bytes that can be read now\<close>
  "fionread [] = 0"
| "fionread (seg # rest) = (if seg = [] then fionread rest else length seg)"

definition stream_size :: "stream \<Rightarrow> nat" where
  "stream_size st = length (concat st) + length st"

text \<open>
  The loop of \<open>play_audio\<close> that reads one line, a byte at a time. \<open>buf\<close> holds the
  \<open>bytes\<close> bytes stored so far (the buffer is doubled when it is full, which the list
  does not show). The result is the line with its terminator, or \<open>None\<close> when \<open>read\<close>
  returned no byte, together with what is left of the stream.
\<close>

definition store_byte :: "char \<Rightarrow> char" where
  \<comment> \<open>a NUL byte read from the descriptor is stored as a question mark\<close>
  "store_byte c = (if c = NUL then CHR ''?'' else c)"

function read_line :: "string \<Rightarrow> stream \<Rightarrow> string option \<times> stream" where
  "read_line buf st =
     (case read_fd (Suc 0) st of
        ([], st') \<Rightarrow> (None, st')
      | (c # cs, st') \<Rightarrow>
          if c = LF \<and> 1 \<le> length buf \<and> last buf = CR
          then (Some (buf @ [c]), st')
          else read_line (buf @ [store_byte c]) st')"
  by pat_completeness auto
termination
proof -
  have smaller: "stream_size st' < stream_size st"
    if "(c # cs, st') = read_fd (Suc 0) st" for st st' :: stream and c cs
    using that by (induction st) (auto simp: stream_size_def split: if_splits)
  show ?thesis
    by (relation "measure (\<lambda>(buf, st). stream_size st)") (auto dest: smaller)
qed

declare read_line.simps [simp del]

text \<open>
  Modelled from the spec: the macro \<open>NEWLINE\<close> is defined in a header that is not among
  the sources; the spec gives the line terminator as CR LF.
\<close>

definition NEWLINE :: string where "NEWLINE = [CR, LF]"

text \<open>
  A line as the loop above delimits it: bytes among which no CR is directly followed by
  LF. The terminator is the first CR LF on the descriptor.
\<close>

fun crlf_free :: "string \<Rightarrow> bool" where
  "crlf_free (a # b # xs) = (\<not> (a = CR \<and> b = LF) \<and> crlf_free (b # xs))"
| "crlf_free xs = True"

text \<open>
  \<open>g_strsplit (buf, ":", max_tokens)\<close> of GLib for a positive \<open>max_tokens\<close>: the string
  is cut at the delimiter into at most \<open>max_tokens\<close> pieces, the last of which takes the
  whole remainder; the empty string gives the empty vector.
\<close>

fun g_strsplit_from :: "nat \<Rightarrow> string \<Rightarrow> string \<Rightarrow> string list" where
  "g_strsplit_from n tok [] = [tok]"
| "g_strsplit_from n tok (c # cs) =
     (if c = CHR '':'' \<and> 1 < n then tok # g_strsplit_from (n - 1) [] cs
      else g_strsplit_from n (tok @ [c]) cs)"

definition g_strsplit :: "string \<Rightarrow> nat \<Rightarrow> string list" where
  "g_strsplit s max_tokens = (if s = [] then [] else g_strsplit_from max_tokens [] s)"

text \<open>
  \<open>strtol (s, NULL, 10)\<close> of the C library: white space is skipped, then an optional sign
  and the longest run of decimal digits are read; without a digit the result is 0, and a
  value outside the range of \<open>long\<close> gives the nearest bound.
\<close>

definition isspace :: "char \<Rightarrow> bool" where
  "isspace c = (c = CHR '' '' \<or> c = CHR 0x09 \<or> c = LF \<or> c = CHR 0x0B \<or> c = CHR 0x0C \<or> c = CR)"

definition isdigit :: "char \<Rightarrow> bool" where
  "isdigit c = (c \<in> set ''0123456789'')"

definition digit_value :: "char \<Rightarrow> int" where
  "digit_value c = int (of_char c) - 48"

fun strtol_digits :: "int \<Rightarrow> string \<Rightarrow> int" where
  "strtol_digits acc [] = acc"
| "strtol_digits acc (c # cs) =
     (if isdigit c then strtol_digits (acc * 10 + digit_value c) cs else acc)"

definition clamp_long :: "int \<Rightarrow> int" where
  "clamp_long v = max (- 9223372036854775808) (min 9223372036854775807 v)"

definition strtol :: "string \<Rightarrow> int" where
  "strtol s =
     (case dropWhile isspace s of
        [] \<Rightarrow> 0
      | c # cs \<Rightarrow>
          if c = CHR ''-'' then clamp_long (- strtol_digits 0 cs)
          else if c = CHR ''+'' then clamp_long (strtol_digits 0 cs)
          else clamp_long (strtol_digits 0 (c # cs)))"

text \<open>
  \<open>play_audio\<close>. The result is the value returned, the stream left on the descriptor and
  the events of the call; a fault of \<open>spd_audio_play\<close> is passed on.
\<close>

definition play_audio ::
  "AudioID option \<Rightarrow> int \<Rightarrow> stream \<Rightarrow> fault + (int \<times> stream \<times> audio_event list)" where
  "play_audio audio_id fd st =
     (case read_line [] st of
        (None, st1) \<Rightarrow> Inr (- 1, st1, [MSG 5 ''ERROR: Read 0 bytes from fd''])
      | (Some buf, st1) \<Rightarrow>
          let log1 = [MSG 5 ''protocol %d:DATA:|%s| (%d)''] in
          if buf = ''ACK'' @ NEWLINE then Inr (0, st1, log1)
          else
            let metadata = g_strsplit buf 5 in
            if length metadata < 5
            then Inr (- 1, st1, log1 @ [MSG 5 ''Error: Unable to read Audiotrack metadata!''])
            else
              let format = int_of_long (strtol (metadata ! 0));
                  track_bits = int_of_long (strtol (metadata ! 1));
                  track_num_channels = int_of_long (strtol (metadata ! 2));
                  track_sample_rate = int_of_long (strtol (metadata ! 3));
                  track_num_samples = int_of_long (strtol (metadata ! 4));
                  log2 = log1 @ [MSG 5 ''Track num samples is %d'']
              in
              if track_num_samples \<le> 0
              then Inr (- 1, st1, log2 @ [MSG 5 ''Error: num_samples is invalid''])
              else
                let want = nat (size_t_of_int track_num_samples * 2);
                    (got, st2) = read_fd want st1;
                    track = \<lparr>bits = track_bits, num_channels = track_num_channels,
                             sample_rate = track_sample_rate, num_samples = track_num_samples,
                             samples = got @ replicate (want - length got) NUL\<rparr>;
                    bytes_read = int_of_long (int (length got))
                in
                if size_t_of_int bytes_read \<noteq> size_t_of_int track_num_samples * 2
                then Inr (- 1, st2,
                          log2 @ [MSG 5 ''Error: num_samples %d doesn't match bytes read %d''])
                else
                  let log3 = log2 @ [MSG 5 ''Going to play audio on audio with id %d''] in
                  (case spd_audio_play audio_id track format of
                     Inl f \<Rightarrow> Inl f
                   | Inr (ret, evs) \<Rightarrow>
                       if ret < 0
                       then Inr (- 1, st2, log3 @ evs @ [MSG 5 ''Error: unable to play audio''])
                       else Inr (0, st2, log3 @ evs)))"

text \<open>
  \<open>TAudioFDSetElement\<close>: the record of one accepted connection, and the state of the audio
  thread: the open device, the queue of records, the descriptors that are open with what
  each still delivers, and the events so far.
\<close>

record TAudioFDSetElement =
  fd :: int
  source :: "nat option"
  output_module :: "string option"

record audio_server =
  audio_id :: "AudioID option"
  module_data_list :: "TAudioFDSetElement list"
  descriptors :: "int \<rightharpoonup> stream"
  audio_log :: "audio_event list"

definition emit :: "audio_event list \<Rightarrow> audio_server \<Rightarrow> audio_server" where
  "emit evs s = s\<lparr>audio_log := audio_log s @ evs\<rparr>"

definition free_fd_set :: "TAudioFDSetElement option \<Rightarrow> audio_server \<Rightarrow> audio_server" where
  "free_fd_set data s =
     (case data of
        None \<Rightarrow> s
      | Some fd_set \<Rightarrow>
          let s1 = emit [Close (fd fd_set)] (s\<lparr>descriptors := (descriptors s)(fd fd_set := None)\<rparr>);
              s2 = (case source fd_set of
                      None \<Rightarrow> s1
                    | Some src \<Rightarrow> emit [SourceDestroy src, SourceUnref src] s1)
          in emit [Free (fd fd_set)] s2)"

text \<open>
  \<open>audio_process_incoming\<close>, the callback of a connection's event source; \<open>fd_set\<close> is its
  \<open>user_data\<close>. \<open>g_queue_remove\<close> takes the first occurrence of the record out of the
  queue. The boolean returned tells the main loop whether to keep the source. On a
  descriptor that is not open \<open>ioctl\<close> fails and leaves \<open>nread\<close> without a value.
\<close>

definition audio_process_incoming ::
  "TAudioFDSetElement \<Rightarrow> audio_server \<Rightarrow> fault + (bool \<times> audio_server)" where
  "audio_process_incoming fd_set s =
     (let s0 = emit [MSG 5 ''audio_process_incoming called for fd %d''] s in
      case descriptors s0 (fd fd_set) of
        None \<Rightarrow> Inl BadDescriptor
      | Some st \<Rightarrow>
          let nread = fionread st in
          if nread = 0
          then
            let s1 = emit [MSG 2 ''Info: Module has gone.''] s0;
                s2 = s1\<lparr>module_data_list := remove1 fd_set (module_data_list s1)\<rparr>
            in Inr (False, free_fd_set (Some fd_set) s2)
          else
            let s1 = emit [MSG 5 ''read %d bytes from fd %d''] s0 in
            (case play_audio (audio_id s1) (fd fd_set) st of
               Inl f \<Rightarrow> Inl f
             | Inr (ret, st', evs) \<Rightarrow>
                 let s2 = emit evs (s1\<lparr>descriptors := (descriptors s1)(fd fd_set \<mapsto> st')\<rparr>);
                     s3 = (if ret = - 1
                           then emit [MSG 2 ''Error: Failed to serve client on fd %d!''] s2
                           else s2)
                 in Inr (True, s3)))"

section \<open>Reading results, and concrete values\<close>

text \<open>What a call of \<open>play_audio\<close> returned, left unread and did, when it came back.\<close>

definition returned :: "fault + (int \<times> stream \<times> audio_event list) \<Rightarrow> int option" where
  "returned r = (case r of Inl f \<Rightarrow> None | Inr (ret, st, evs) \<Rightarrow> Some ret)"

definition unread :: "fault + (int \<times> stream \<times> audio_event list) \<Rightarrow> string option" where
  "unread r = (case r of Inl f \<Rightarrow> None | Inr (ret, st, evs) \<Rightarrow> Some (concat st))"

definition events :: "fault + (int \<times> stream \<times> audio_event list) \<Rightarrow> audio_event list" where
  "events r = (case r of Inl f \<Rightarrow> [] | Inr (ret, st, evs) \<Rightarrow> evs)"

fun is_Play :: "audio_event \<Rightarrow> bool" where
  "is_Play (Play track) = True"
| "is_Play ev = False"

definition example_play :: "AudioTrack \<Rightarrow> int" where
  "example_play track = 0"

definition example_device :: AudioID where
  "example_device = \<lparr>function_play = Some example_play, id_format = 0, id_volume = 85\<rparr>"

definition example_tts_output :: "AudioTrack \<Rightarrow> int \<Rightarrow> int" where
  "example_tts_output track format = 0"

definition example_env :: module_env where
  "example_env = \<lparr>module_tts_output = example_tts_output, update_parameters = (\<lambda>v. v),
     BCinputTextBufferNew = (\<lambda>v. Some 1), BCinputTextBufferInit = (\<lambda>b text. True),
     module_strip_ssml = (\<lambda>text. text)\<rparr>"

definition idle_session :: session where
  "idle_session = \<lparr>baratinoo_stop_requested = False, baratinoo_close_requested = False,
     baratinoo_semaphore = 0, baratinoo_text_buffer = None, baratinoo_voice = 0,
     session_log = []\<rparr>"

definition speaking_session :: session where
  "speaking_session = idle_session\<lparr>baratinoo_text_buffer := Some 1\<rparr>"

definition stopping_session :: session where
  "stopping_session = speaking_session\<lparr>baratinoo_stop_requested := True\<rparr>"

definition example_fd_set :: TAudioFDSetElement where
  "example_fd_set = \<lparr>fd = 7, source = Some 3, output_module = None\<rparr>"

definition example_server :: "stream \<Rightarrow> audio_server" where
  "example_server st = \<lparr>audio_id = Some example_device, module_data_list = [example_fd_set],
     descriptors = [7 \<mapsto> st], audio_log = []\<rparr>"

definition truncated_stream :: stream where
  "truncated_stream = [''0:16:1:16000:4'' @ NEWLINE @ ''ab'']"

definition stereo_stream :: stream where
  "stereo_stream = [''1:16:2:16000:1'' @ NEWLINE @ ''ab'']"



definition negative_count_stream :: stream where
  "negative_count_stream = [''0:16:1:16000:-4294967295'' @ NEWLINE @ ''ab'']"


text \<open>The events of a call of \<open>play_audio\<close> that plays one mono sample.\<close>

definition played_events :: "string \<Rightarrow> audio_event list" where
  "played_events payload =
     [MSG 5 ''protocol %d:DATA:|%s| (%d)'', MSG 5 ''Track num samples is %d'',
      MSG 5 ''Going to play audio on audio with id %d'', MSG 5 ''playing audio on audio_id %d'',
      Play \<lparr>bits = 16, num_channels = 1, sample_rate = 16000, num_samples = 1,
             samples = payload\<rparr>]"


section \<open>Facts about the stream, the decoder and the event handler\<close>

lemma read_fd_one:
  "concat st = c # rest \<Longrightarrow> \<exists>st'. read_fd (Suc 0) st = ([c], st') \<and> concat st' = rest"
proof (induction st)
  case Nil
  then show ?case by simp
next
  case (Cons seg st)
  show ?case
  proof (cases seg)
    case Nil
    with Cons show ?thesis by simp
  next
    case (Cons x xs)
    with Cons.prems show ?thesis by (cases xs) auto
  qed
qed




lemma crlf_free_store_byte: "crlf_free (store_byte c # cs) = crlf_free (c # cs)"
  by (cases cs) (auto simp: store_byte_def)

lemma crlf_free_tail: "crlf_free (xs @ ys) \<Longrightarrow> crlf_free ys"
proof (induction xs)
  case Nil
  then show ?case by simp
next
  case (Cons x xs)
  then show ?case by (cases "xs @ ys") auto
qed

lemma read_line_line:
  "crlf_free ((if buf = [] then [] else [last buf]) @ line) \<Longrightarrow>
   concat st = line @ CR # LF # rest \<Longrightarrow>
     \<exists>st'. read_line buf st = (Some (buf @ map store_byte line @ [CR, LF]), st') \<and> concat st' = rest"
proof (induction line arbitrary: buf st)
  case Nil
  then obtain st1 where 1: "read_fd (Suc 0) st = ([CR], st1)" "concat st1 = LF # rest"
    using read_fd_one [of st CR "LF # rest"] by auto
  then obtain st2 where 2: "read_fd (Suc 0) st1 = ([LF], st2)" "concat st2 = rest"
    using read_fd_one [of st1 LF rest] by auto
  from 1 2 show ?case
    by (subst read_line.simps, simp, subst read_line.simps, simp add: store_byte_def)
next
  case (Cons c cs)
  then obtain st1 where 1: "read_fd (Suc 0) st = ([c], st1)" "concat st1 = cs @ CR # LF # rest"
    using read_fd_one [of st c "cs @ CR # LF # rest"] by auto
  from Cons.prems(1) have go: "\<not> (c = LF \<and> 1 \<le> length buf \<and> last buf = CR)"
    by (auto split: if_splits)
  from Cons.prems(1) have "crlf_free (c # cs)"
    by (rule crlf_free_tail)
  then have "crlf_free ((if buf @ [store_byte c] = [] then [] else [last (buf @ [store_byte c])]) @ cs)"
    by (simp add: crlf_free_store_byte)
  from Cons.IH [OF this 1(2)] 1(1) go show ?case
    by (subst read_line.simps) auto
qed

lemma g_strsplit_ACK: "g_strsplit (''ACK'' @ NEWLINE) 5 = [''ACK'' @ NEWLINE]"
  by (simp add: g_strsplit_def NEWLINE_def)

lemma play_audio_header:
  assumes "crlf_free line" "concat st = line @ NEWLINE @ rest"
    and "g_strsplit (map store_byte line @ NEWLINE) 5 = [m0, m1, m2, m3, m4]"
  obtains st1 where "read_line [] st = (Some (map store_byte line @ NEWLINE), st1)"
    and "concat st1 = rest" and "map store_byte line @ NEWLINE \<noteq> ''ACK'' @ NEWLINE"
proof -
  from assms(2) have "concat st = line @ CR # LF # rest" by (simp add: NEWLINE_def)
  from read_line_line [of "[]" line, OF _ this] assms(1) obtain st1 where
    1: "read_line [] st = (Some (map store_byte line @ NEWLINE), st1)" "concat st1 = rest"
    by (auto simp: NEWLINE_def)
  have "map store_byte line @ NEWLINE \<noteq> ''ACK'' @ NEWLINE"
  proof
    assume "map store_byte line @ NEWLINE = ''ACK'' @ NEWLINE"
    with assms(3) g_strsplit_ACK show False by simp
  qed
  with 1 that show thesis by blast
qed




lemma spd_audio_play_no_close:
  "spd_audio_play aid track format = Inr (ret, evs) \<Longrightarrow> Close x \<notin> set evs"
  by (auto simp: spd_audio_play_def Let_def split: option.splits sum.splits if_splits)

lemma play_audio_no_close:
  assumes "play_audio aid d st = Inr (ret, st', evs)"
  shows "count_list evs (Close x) = 0"
proof -
  have "Close x \<notin> set evs"
    using assms spd_audio_play_no_close [of aid _ _ _ _ x]
    by (auto simp: play_audio_def Let_def split: prod.splits option.splits sum.splits if_splits)
  then show ?thesis by (simp add: count_list_0_iff)
qed

lemma audio_process_incoming_gone:
  assumes "descriptors s (fd fd_set) = Some st" "fionread st = 0"
  shows "audio_process_incoming fd_set s =
           Inr (False,
             s\<lparr>module_data_list := remove1 fd_set (module_data_list s),
                descriptors := (descriptors s)(fd fd_set := None),
                audio_log := audio_log s
                  @ [MSG 5 ''audio_process_incoming called for fd %d'', MSG 2 ''Info: Module has gone.'',
                     Close (fd fd_set)]
                  @ (case source fd_set of None \<Rightarrow> []
                     | Some src \<Rightarrow> [SourceDestroy src, SourceUnref src])
                  @ [Free (fd fd_set)]\<rparr>)"
  using assms
  by (simp add: audio_process_incoming_def emit_def free_fd_set_def Let_def split: option.splits)

lemma audio_process_incoming_served:
  assumes "descriptors s (fd fd_set) = Some st" "fionread st \<noteq> 0"
    and "play_audio (audio_id s) (fd fd_set) st = Inr (ret, st', evs)"
  shows "audio_process_incoming fd_set s =
           Inr (True,
             s\<lparr>descriptors := (descriptors s)(fd fd_set \<mapsto> st'),
                audio_log := audio_log s
                  @ [MSG 5 ''audio_process_incoming called for fd %d'', MSG 5 ''read %d bytes from fd %d'']
                  @ evs
                  @ (if ret = - 1 then [MSG 2 ''Error: Failed to serve client on fd %d!''] else [])\<rparr>)"
  using assms
  by (simp add: audio_process_incoming_def emit_def Let_def)

lemma truncated_stream_eval:
  "play_audio (Some example_device) 7 truncated_stream =
   Inr (- 1, [], [MSG 5 ''protocol %d:DATA:|%s| (%d)'', MSG 5 ''Track num samples is %d'',
                 MSG 5 ''Error: num_samples %d doesn't match bytes read %d''])"
  by code_simp


lemma negative_count_stream_eval:
  "play_audio (Some example_device) 7 negative_count_stream = Inr (0, [], played_events ''ab'')"
  by code_simp



lemma int_of_long_in_range:
  "- 2147483648 \<le> v \<Longrightarrow> v \<le> 2147483647 \<Longrightarrow> int_of_long v = v"
  by (simp add: int_of_long_def)


lemma swap_loop_past_end:
  "int (length buf) < e \<Longrightarrow> even i \<Longrightarrow> even (length buf) \<Longrightarrow> i \<le> length buf \<Longrightarrow>
     swap_loop i e buf = Inl OutOfBounds"
proof (induction i e buf rule: swap_loop.induct)
  case (1 i e buf)
  then have lt: "int i < e" by linarith
  show ?case
  proof (cases "i + 1 < length buf")
    case True
    with "1.prems" have "i + 2 \<le> length buf" by presburger
    with "1.IH" [OF lt True] "1.prems" lt True show ?thesis
      by (subst swap_loop.simps) simp
  next
    case False
    with lt show ?thesis by (subst swap_loop.simps) simp
  qed
qed

lemma swap_bound_exceeds_allocation:
  assumes "function_play h = Some play" "format \<noteq> id_format h"
    and "0 < num_samples track" "2 \<le> num_channels track"
    and "length (samples track) = 2 * nat (num_samples track)"
  shows "spd_audio_play (Some h) track format = Inl OutOfBounds
         \<or> spd_audio_play (Some h) track format = Inl SignedOverflow"
proof -
  let ?a = "num_samples track * 2" and ?e = "num_samples track * 2 * num_channels track"
  from assms(3,4) have "?a * 2 \<le> ?a * num_channels track" by (intro mult_left_mono) simp_all
  with assms(3) have big: "?a < ?e" by simp
  show ?thesis
  proof (cases "?a \<le> 2147483647 \<and> ?e \<le> 2147483647")
    case True
    moreover from assms(3) big have "0 \<le> ?a" "0 \<le> ?e" by linarith+
    ultimately have "int_mul (num_samples track) 2 = Inr ?a" "int_mul ?a (num_channels track) = Inr ?e"
      unfolding int_mul_def by auto
    moreover have "swap_loop 0 ?e (samples track) = Inl OutOfBounds"
      using assms(3,5) big by (intro swap_loop_past_end) simp_all
    ultimately show ?thesis using assms(1,2) by (simp add: spd_audio_play_def)
  next
    case False
    with assms(1,2,3) show ?thesis
      by (auto simp: spd_audio_play_def int_mul_def)
  qed
qed

lemma strtol_no_number:
  "dropWhile isspace s = c # cs \<Longrightarrow> \<not> isdigit c \<Longrightarrow> c \<noteq> CHR ''-'' \<Longrightarrow> c \<noteq> CHR ''+'' \<Longrightarrow>
     strtol s = 0"
  by (simp add: strtol_def clamp_long_def)

section \<open>The session: busy rejection, stop, and the output callback\<close>

text \<open>
  C5. \<open>module_speak\<close> called while a message is being spoken (the input buffer is
  pending) returns 0 and changes nothing but the debug log: the pending buffer, the stop
  flag, the semaphore and the voice stay as they were, no text is queued and no buffer is
  created or deleted.
\<close>

theorem module_speak_busy:
  assumes "baratinoo_text_buffer s \<noteq> None"
  shows "module_speak env data bytes msgtype s =
           (0, s\<lparr>session_log := session_log s
                    @ [DBG ''write()'', DBG ''Speaking when requested to write'']\<rparr>)"
  using assms by (simp add: module_speak_def baratinoo_speaking_def dbg_def)

theorem module_speak_busy_witness:
  "baratinoo_text_buffer stopping_session \<noteq> None
   \<and> fst (module_speak example_env ''hello'' 5 0 stopping_session) = 0
   \<and> baratinoo_text_buffer (snd (module_speak example_env ''hello'' 5 0 stopping_session)) = Some 1
   \<and> baratinoo_stop_requested (snd (module_speak example_env ''hello'' 5 0 stopping_session))
   \<and> baratinoo_semaphore (snd (module_speak example_env ''hello'' 5 0 stopping_session)) = 0"
  using module_speak_busy [of stopping_session example_env "''hello''" 5 0]
  by (simp add: stopping_session_def speaking_session_def idle_session_def)

text \<open>
  C6. \<open>module_stop\<close> always returns 0. With the stop flag already set it leaves the flag
  and the semaphore as they are; otherwise it sets the flag and posts the semaphore once.
  A second call right after the first changes neither the flag nor the semaphore, so two
  calls in succession have the effect of one. The pending buffer and the close flag are
  not touched.
\<close>

theorem module_stop_idempotent:
  "fst (module_stop s) = 0
   \<and> (baratinoo_stop_requested s \<longrightarrow>
        baratinoo_stop_requested (snd (module_stop s))
        \<and> baratinoo_semaphore (snd (module_stop s)) = baratinoo_semaphore s)
   \<and> (\<not> baratinoo_stop_requested s \<longrightarrow>
        baratinoo_stop_requested (snd (module_stop s))
        \<and> baratinoo_semaphore (snd (module_stop s)) = Suc (baratinoo_semaphore s))
   \<and> fst (module_stop (snd (module_stop s))) = 0
   \<and> baratinoo_stop_requested (snd (module_stop (snd (module_stop s))))
       = baratinoo_stop_requested (snd (module_stop s))
   \<and> baratinoo_semaphore (snd (module_stop (snd (module_stop s))))
       = baratinoo_semaphore (snd (module_stop s))
   \<and> baratinoo_text_buffer (snd (module_stop s)) = baratinoo_text_buffer s
   \<and> baratinoo_close_requested (snd (module_stop s)) = baratinoo_close_requested s"
  by (simp add: module_stop_def dbg_def sem_post_def Let_def)

theorem module_stop_idempotent_witness:
  "\<not> baratinoo_stop_requested speaking_session
   \<and> baratinoo_stop_requested (snd (module_stop speaking_session))
   \<and> baratinoo_semaphore (snd (module_stop speaking_session)) = 1
   \<and> baratinoo_semaphore (snd (module_stop (snd (module_stop speaking_session)))) = 1
   \<and> baratinoo_stop_requested stopping_session
   \<and> baratinoo_stop_requested (snd (module_stop stopping_session))
   \<and> baratinoo_semaphore (snd (module_stop stopping_session)) = 0"
  using module_stop_idempotent [of speaking_session] module_stop_idempotent [of stopping_session]
  by (simp add: stopping_session_def speaking_session_def idle_session_def)

text \<open>
  C8, as the claim states it, fails: the callback returns the same value whether it drops
  the chunk or forwards it.
\<close>

theorem baratinoo_output_signal_cb_same_value:
  "fst (baratinoo_output_signal_cb example_env ''ab'' 2 stopping_session)
     = fst (baratinoo_output_signal_cb example_env ''ab'' 2 speaking_session)"
  by (simp add: baratinoo_output_signal_cb_def Let_def)

text \<open>
  C8, amended. Called while a stop is pending, the output callback drops the chunk: it
  returns 0 and only writes a debug line, \<open>module_tts_output\<close> is not called. Called
  with no stop pending it passes the chunk, as mono 16-bit little-endian audio at 16000 Hz,
  to \<open>module_tts_output\<close> once, and returns 0 as well.
\<close>

theorem baratinoo_output_signal_cb_stop:
  "(baratinoo_stop_requested s \<longrightarrow>
      baratinoo_output_signal_cb env address len s =
        (0, s\<lparr>session_log := session_log s
                 @ [DBG ''Not playing message because it got stopped'']\<rparr>))
   \<and> (\<not> baratinoo_stop_requested s \<longrightarrow>
      fst (baratinoo_output_signal_cb env address len s) = 0
      \<and> session_log (snd (baratinoo_output_signal_cb env address len s))
         = session_log s
           @ [DBG ''Playing part of the message'',
              TtsOutput \<lparr>bits = 16, num_channels = 1, sample_rate = 16000,
                          num_samples = c_div2 len, samples = address\<rparr> SPD_AUDIO_LE]
           @ (if module_tts_output env
                   \<lparr>bits = 16, num_channels = 1, sample_rate = 16000,
                      num_samples = c_div2 len, samples = address\<rparr> SPD_AUDIO_LE < 0
              then [DBG ''ERROR: failed to play the track''] else []))"
  by (simp add: baratinoo_output_signal_cb_def Let_def dbg_def)

theorem baratinoo_output_signal_cb_stop_witness:
  "baratinoo_stop_requested stopping_session
   \<and> baratinoo_output_signal_cb example_env ''ab'' 2 stopping_session =
        (0, stopping_session\<lparr>session_log :=
               [DBG ''Not playing message because it got stopped'']\<rparr>)
   \<and> \<not> baratinoo_stop_requested speaking_session
   \<and> fst (baratinoo_output_signal_cb example_env ''ab'' 2 speaking_session) = 0
   \<and> session_log (snd (baratinoo_output_signal_cb example_env ''ab'' 2 speaking_session)) =
        [DBG ''Playing part of the message'',
         TtsOutput \<lparr>bits = 16, num_channels = 1, sample_rate = 16000,
                     num_samples = 1, samples = ''ab''\<rparr> 0]"
  using baratinoo_output_signal_cb_stop [of stopping_session example_env "''ab''" 2]
    baratinoo_output_signal_cb_stop [of speaking_session example_env "''ab''" 2]
  by (simp add: stopping_session_def speaking_session_def idle_session_def
      example_env_def example_tts_output_def c_div2_def SPD_AUDIO_LE_def)

section \<open>The output library: volume\<close>

text \<open>
  C4. \<open>spd_audio_set_volume\<close> with a volume above 100 or below -100 returns -1 and leaves
  the handle, and so the volume stored in it, as it was; with a volume from -100 to 100
  and a handle that is not \<open>NULL\<close> it returns 0 and stores the volume.
\<close>

theorem spd_audio_set_volume_bounds:
  "(100 < vol \<or> vol < - 100 \<longrightarrow>
      fst (spd_audio_set_volume aid vol) = - 1 \<and> fst (snd (spd_audio_set_volume aid vol)) = aid)
   \<and> (- 100 \<le> vol \<and> vol \<le> 100 \<longrightarrow>
      fst (spd_audio_set_volume (Some h) vol) = 0
      \<and> fst (snd (spd_audio_set_volume (Some h) vol)) = Some (h\<lparr>id_volume := vol\<rparr>))"
  by (simp add: spd_audio_set_volume_def)

theorem spd_audio_set_volume_bounds_witness:
  "fst (spd_audio_set_volume (Some example_device) 101) = - 1
   \<and> fst (snd (spd_audio_set_volume (Some example_device) 101)) = Some example_device
   \<and> fst (spd_audio_set_volume (Some example_device) (- 101)) = - 1
   \<and> fst (snd (spd_audio_set_volume (Some example_device) (- 101))) = Some example_device
   \<and> fst (spd_audio_set_volume (Some example_device) 100) = 0
   \<and> fst (snd (spd_audio_set_volume (Some example_device) 100))
       = Some (example_device\<lparr>id_volume := 100\<rparr>)
   \<and> fst (spd_audio_set_volume (Some example_device) (- 100)) = 0
   \<and> fst (snd (spd_audio_set_volume (Some example_device) (- 100)))
       = Some (example_device\<lparr>id_volume := - 100\<rparr>)"
  using spd_audio_set_volume_bounds [of 101 "Some example_device" example_device]
    spd_audio_set_volume_bounds [of "- 101" "Some example_device" example_device]
    spd_audio_set_volume_bounds [of 100 "Some example_device" example_device]
    spd_audio_set_volume_bounds [of "- 100" "Some example_device" example_device]
  by simp

section \<open>The output library: byte order\<close>



section \<open>The transport decoder\<close>

text \<open>
  C7. A descriptor whose next bytes are \<open>ACK\<close>, CR, LF, however they arrive: \<open>play_audio\<close>
  returns 0, reads these five bytes and nothing after them, and does nothing but write its
  protocol trace; the device is not played on.
\<close>

theorem play_audio_ack:
  assumes "concat st = ''ACK'' @ NEWLINE @ rest"
  shows "returned (play_audio aid d st) = Some 0
         \<and> unread (play_audio aid d st) = Some rest
         \<and> events (play_audio aid d st) = [MSG 5 ''protocol %d:DATA:|%s| (%d)'']"
proof -
  from assms have "concat st = ''ACK'' @ CR # LF # rest" by (simp add: NEWLINE_def)
  from read_line_line [of "[]" "''ACK''", OF _ this] obtain st' where
    "read_line [] st = (Some (''ACK'' @ NEWLINE), st')" "concat st' = rest"
    by (auto simp: store_byte_def NEWLINE_def)
  then show ?thesis
    by (simp add: play_audio_def returned_def unread_def events_def)
qed

theorem play_audio_ack_witness:
  "concat [''AC'', ''K'' @ [CR], LF # ''0:16:1''] = ''ACK'' @ NEWLINE @ ''0:16:1''
   \<and> returned (play_audio (Some example_device) 7 [''AC'', ''K'' @ [CR], LF # ''0:16:1'']) = Some 0
   \<and> unread (play_audio (Some example_device) 7 [''AC'', ''K'' @ [CR], LF # ''0:16:1'']) = Some ''0:16:1''
   \<and> events (play_audio (Some example_device) 7 [''AC'', ''K'' @ [CR], LF # ''0:16:1''])
       = [MSG 5 ''protocol %d:DATA:|%s| (%d)'']"
  using play_audio_ack [of "[''AC'', ''K'' @ [CR], LF # ''0:16:1'']" "''0:16:1''" "Some example_device" 7]
  by (simp add: NEWLINE_def)

text \<open>
  C10, as the claim states it, fails: the fifth field \<open>-4294967295\<close> is read by
  \<open>strtol\<close> as a negative number, but stored in the \<open>int\<close> \<open>num_samples\<close> it is 1;
  \<open>play_audio\<close> reads two payload bytes, plays them and returns 0.
\<close>

theorem negative_count_played:
  "g_strsplit (map store_byte ''0:16:1:16000:-4294967295'' @ NEWLINE) 5
     = [''0'', ''16'', ''1'', ''16000'', ''-4294967295'' @ NEWLINE]
   \<and> strtol (''-4294967295'' @ NEWLINE) = - 4294967295
   \<and> int_of_long (strtol (''-4294967295'' @ NEWLINE)) = 1
   \<and> play_audio (Some example_device) 7 negative_count_stream
       = Inr (0, [], played_events ''ab'')"
proof -
  have "g_strsplit (map store_byte ''0:16:1:16000:-4294967295'' @ NEWLINE) 5
     = [''0'', ''16'', ''1'', ''16000'', ''-4294967295'' @ NEWLINE]"
    by (simp add: g_strsplit_def store_byte_def NEWLINE_def)
  moreover have "strtol (''-4294967295'' @ NEWLINE) = - 4294967295"
    by (simp add: strtol_def isspace_def isdigit_def digit_value_def NEWLINE_def clamp_long_def)
  moreover from this have "int_of_long (strtol (''-4294967295'' @ NEWLINE)) = 1"
    by (simp add: int_of_long_def)
  ultimately show ?thesis using negative_count_stream_eval by blast
qed

text \<open>
  C10, amended. A header line (any bytes up to the first CR LF) with five fields whose
  fifth, the sample count, is zero or negative once the \<open>long\<close> that \<open>strtol\<close> returns
  is stored in the \<open>int\<close> \<open>num_samples\<close> (a field without a leading number is read as 0,
  see \<open>strtol_no_number\<close>; a result within the range of \<open>int\<close> is stored as it is, see
  \<open>int_of_long_in_range\<close>): \<open>play_audio\<close> returns -1, has read the header line and
  nothing after it, and writes three trace lines; the device is not played on.
\<close>

theorem play_audio_num_samples_invalid:
  assumes "crlf_free line" "concat st = line @ NEWLINE @ rest"
    and "g_strsplit (map store_byte line @ NEWLINE) 5 = [m0, m1, m2, m3, m4]"
    and "int_of_long (strtol m4) \<le> 0"
  shows "returned (play_audio aid d st) = Some (- 1)
         \<and> unread (play_audio aid d st) = Some rest
         \<and> events (play_audio aid d st)
             = [MSG 5 ''protocol %d:DATA:|%s| (%d)'', MSG 5 ''Track num samples is %d'',
                MSG 5 ''Error: num_samples is invalid'']"
proof -
  from play_audio_header [OF assms(1-3)] obtain st1 where
    "read_line [] st = (Some (map store_byte line @ NEWLINE), st1)"
    "concat st1 = rest" "map store_byte line @ NEWLINE \<noteq> ''ACK'' @ NEWLINE"
    by blast
  with assms(3,4) show ?thesis
    by (simp add: play_audio_def returned_def unread_def events_def Let_def)
qed

theorem play_audio_num_samples_invalid_witness:
  "crlf_free ''0:16:1:16000:x''
   \<and> g_strsplit (map store_byte ''0:16:1:16000:x'' @ NEWLINE) 5
       = [''0'', ''16'', ''1'', ''16000'', ''x'' @ NEWLINE]
   \<and> int_of_long (strtol (''x'' @ NEWLINE)) = 0
   \<and> returned (play_audio (Some example_device) 7 [''0:16:1:16000:x'' @ NEWLINE @ ''abcd'']) = Some (- 1)
   \<and> unread (play_audio (Some example_device) 7 [''0:16:1:16000:x'' @ NEWLINE @ ''abcd'']) = Some ''abcd''
   \<and> g_strsplit (map store_byte ''0:16:1:16000:0'' @ NEWLINE) 5
       = [''0'', ''16'', ''1'', ''16000'', ''0'' @ NEWLINE]
   \<and> int_of_long (strtol (''0'' @ NEWLINE)) = 0
   \<and> returned (play_audio (Some example_device) 7 [''0:16:1:16000:0'' @ NEWLINE]) = Some (- 1)
   \<and> unread (play_audio (Some example_device) 7 [''0:16:1:16000:0'' @ NEWLINE]) = Some []
   \<and> g_strsplit (map store_byte ''0:16:1:16000:-3'' @ NEWLINE) 5
       = [''0'', ''16'', ''1'', ''16000'', ''-3'' @ NEWLINE]
   \<and> int_of_long (strtol (''-3'' @ NEWLINE)) = - 3
   \<and> returned (play_audio (Some example_device) 7 [''0:16:1:16000:-3'' @ NEWLINE @ ''abcdef'']) = Some (- 1)
   \<and> unread (play_audio (Some example_device) 7 [''0:16:1:16000:-3'' @ NEWLINE @ ''abcdef'']) = Some ''abcdef''"
proof -
  have x: "crlf_free ''0:16:1:16000:x''"
    "concat [''0:16:1:16000:x'' @ NEWLINE @ ''abcd''] = ''0:16:1:16000:x'' @ NEWLINE @ ''abcd''"
    "g_strsplit (map store_byte ''0:16:1:16000:x'' @ NEWLINE) 5
       = [''0'', ''16'', ''1'', ''16000'', ''x'' @ NEWLINE]"
    "int_of_long (strtol (''x'' @ NEWLINE)) = 0"
    by (simp_all add: g_strsplit_def store_byte_def NEWLINE_def strtol_def isspace_def isdigit_def
        digit_value_def int_of_long_def clamp_long_def)
  have z: "crlf_free ''0:16:1:16000:0''"
    "concat [''0:16:1:16000:0'' @ NEWLINE] = ''0:16:1:16000:0'' @ NEWLINE @ []"
    "g_strsplit (map store_byte ''0:16:1:16000:0'' @ NEWLINE) 5
       = [''0'', ''16'', ''1'', ''16000'', ''0'' @ NEWLINE]"
    "int_of_long (strtol (''0'' @ NEWLINE)) = 0"
    by (simp_all add: g_strsplit_def store_byte_def NEWLINE_def strtol_def isspace_def isdigit_def
        digit_value_def int_of_long_def clamp_long_def)
  have n: "crlf_free ''0:16:1:16000:-3''"
    "concat [''0:16:1:16000:-3'' @ NEWLINE @ ''abcdef''] = ''0:16:1:16000:-3'' @ NEWLINE @ ''abcdef''"
    "g_strsplit (map store_byte ''0:16:1:16000:-3'' @ NEWLINE) 5
       = [''0'', ''16'', ''1'', ''16000'', ''-3'' @ NEWLINE]"
    "int_of_long (strtol (''-3'' @ NEWLINE)) = - 3"
    by (simp_all add: g_strsplit_def store_byte_def NEWLINE_def strtol_def isspace_def isdigit_def
        digit_value_def int_of_long_def clamp_long_def)
  have x': "int_of_long (strtol (''x'' @ NEWLINE)) \<le> 0" using x(4) by simp
  have z': "int_of_long (strtol (''0'' @ NEWLINE)) \<le> 0" using z(4) by simp
  have n': "int_of_long (strtol (''-3'' @ NEWLINE)) \<le> 0" using n(4) by simp
  from play_audio_num_samples_invalid [OF x(1-3) x', of "Some example_device" 7]
    play_audio_num_samples_invalid [OF z(1-3) z', of "Some example_device" 7]
    play_audio_num_samples_invalid [OF n(1-3) n', of "Some example_device" 7]
    x(1,3,4) z(3,4) n(3,4)
  show ?thesis by simp
qed

section \<open>The event handler of a connection\<close>




text \<open>
  C3. An event on a connection that finds zero readable bytes takes the record out of the
  queue (it is no longer there when the queue held it once), closes its descriptor exactly
  once and frees the record, and the source is dropped. An event that finds bytes and
  whose decoding fails (\<open>play_audio\<close> returns -1) only logs the failure: the queue is
  unchanged, the descriptor stays open, no \<open>close\<close> is called and the source is kept.
\<close>

theorem audio_process_incoming_disconnect_or_failure:
  "(descriptors s (fd fd_set) = Some st \<and> fionread st = 0 \<longrightarrow>
      (\<exists>s'. audio_process_incoming fd_set s = Inr (False, s')
         \<and> module_data_list s' = remove1 fd_set (module_data_list s)
         \<and> (distinct (module_data_list s) \<longrightarrow> fd_set \<notin> set (module_data_list s'))
         \<and> descriptors s' (fd fd_set) = None
         \<and> count_list (audio_log s') (Close (fd fd_set))
             = Suc (count_list (audio_log s) (Close (fd fd_set)))
         \<and> last (audio_log s') = Free (fd fd_set)))
   \<and> (descriptors s (fd fd_set) = Some st \<and> fionread st \<noteq> 0
        \<and> returned (play_audio (audio_id s) (fd fd_set) st) = Some (- 1) \<longrightarrow>
      (\<exists>s'. audio_process_incoming fd_set s = Inr (True, s')
         \<and> module_data_list s' = module_data_list s
         \<and> descriptors s' (fd fd_set) \<noteq> None
         \<and> count_list (audio_log s') (Close (fd fd_set))
             = count_list (audio_log s) (Close (fd fd_set))
         \<and> filter is_Play (audio_log s')
             = filter is_Play (audio_log s)
               @ filter is_Play (events (play_audio (audio_id s) (fd fd_set) st))
         \<and> last (audio_log s') = MSG 2 ''Error: Failed to serve client on fd %d!''))"
proof (intro conjI impI)
  assume a: "descriptors s (fd fd_set) = Some st \<and> fionread st = 0"
  then have "audio_process_incoming fd_set s = Inr (False,
             s\<lparr>module_data_list := remove1 fd_set (module_data_list s),
                descriptors := (descriptors s)(fd fd_set := None),
                audio_log := audio_log s
                  @ [MSG 5 ''audio_process_incoming called for fd %d'', MSG 2 ''Info: Module has gone.'',
                     Close (fd fd_set)]
                  @ (case source fd_set of None \<Rightarrow> []
                     | Some src \<Rightarrow> [SourceDestroy src, SourceUnref src])
                  @ [Free (fd fd_set)]\<rparr>)"
    by (simp add: audio_process_incoming_gone)
  then show "\<exists>s'. audio_process_incoming fd_set s = Inr (False, s')
         \<and> module_data_list s' = remove1 fd_set (module_data_list s)
         \<and> (distinct (module_data_list s) \<longrightarrow> fd_set \<notin> set (module_data_list s'))
         \<and> descriptors s' (fd fd_set) = None
         \<and> count_list (audio_log s') (Close (fd fd_set))
             = Suc (count_list (audio_log s) (Close (fd fd_set)))
         \<and> last (audio_log s') = Free (fd fd_set)"
    by (simp split: option.splits)
next
  assume a: "descriptors s (fd fd_set) = Some st \<and> fionread st \<noteq> 0
        \<and> returned (play_audio (audio_id s) (fd fd_set) st) = Some (- 1)"
  then obtain st' evs where pa: "play_audio (audio_id s) (fd fd_set) st = Inr (- 1, st', evs)"
    by (auto simp: returned_def split: sum.splits)
  from a have "descriptors s (fd fd_set) = Some st" "fionread st \<noteq> 0" by simp_all
  from audio_process_incoming_served [OF this pa] pa play_audio_no_close [OF pa, of "fd fd_set"]
  show "\<exists>s'. audio_process_incoming fd_set s = Inr (True, s')
         \<and> module_data_list s' = module_data_list s
         \<and> descriptors s' (fd fd_set) \<noteq> None
         \<and> count_list (audio_log s') (Close (fd fd_set))
             = count_list (audio_log s) (Close (fd fd_set))
         \<and> filter is_Play (audio_log s')
             = filter is_Play (audio_log s)
               @ filter is_Play (events (play_audio (audio_id s) (fd fd_set) st))
         \<and> last (audio_log s') = MSG 2 ''Error: Failed to serve client on fd %d!''"
    by (simp add: events_def)
qed

theorem audio_process_incoming_disconnect_or_failure_witness:
  "descriptors (example_server []) (fd example_fd_set) = Some [] \<and> fionread [] = 0
   \<and> distinct (module_data_list (example_server []))
   \<and> (\<exists>s'. audio_process_incoming example_fd_set (example_server []) = Inr (False, s')
         \<and> module_data_list s' = []
         \<and> example_fd_set \<notin> set (module_data_list s')
         \<and> descriptors s' 7 = None
         \<and> count_list (audio_log s') (Close 7) = 1
         \<and> last (audio_log s') = Free 7)
   \<and> descriptors (example_server truncated_stream) (fd example_fd_set) = Some truncated_stream
   \<and> fionread truncated_stream \<noteq> 0
   \<and> returned (play_audio (Some example_device) 7 truncated_stream) = Some (- 1)
   \<and> (\<exists>s'. audio_process_incoming example_fd_set (example_server truncated_stream) = Inr (True, s')
         \<and> module_data_list s' = [example_fd_set]
         \<and> descriptors s' 7 \<noteq> None
         \<and> count_list (audio_log s') (Close 7) = 0
         \<and> filter is_Play (audio_log s') = []
         \<and> last (audio_log s') = MSG 2 ''Error: Failed to serve client on fd %d!'')"
proof -
  have a: "descriptors (example_server []) (fd example_fd_set) = Some [] \<and> fionread [] = 0"
    "distinct (module_data_list (example_server []))"
    by (simp_all add: example_server_def example_fd_set_def)
  note ev = truncated_stream_eval
  have b: "descriptors (example_server truncated_stream) (fd example_fd_set) = Some truncated_stream"
    "fionread truncated_stream \<noteq> 0"
    by (simp_all add: example_server_def example_fd_set_def truncated_stream_def)
  have b': "returned (play_audio (Some example_device) 7 truncated_stream) = Some (- 1)"
    by (simp add: ev returned_def)
  from audio_process_incoming_disconnect_or_failure [of "example_server []" example_fd_set "[]"] a
  have c: "\<exists>s'. audio_process_incoming example_fd_set (example_server []) = Inr (False, s')
         \<and> module_data_list s' = []
         \<and> example_fd_set \<notin> set (module_data_list s')
         \<and> descriptors s' 7 = None
         \<and> count_list (audio_log s') (Close 7) = 1
         \<and> last (audio_log s') = Free 7"
    by (auto simp add: example_server_def example_fd_set_def)
  from audio_process_incoming_disconnect_or_failure
    [of "example_server truncated_stream" example_fd_set truncated_stream] b b' ev
  have d: "\<exists>s'. audio_process_incoming example_fd_set (example_server truncated_stream) = Inr (True, s')
         \<and> module_data_list s' = [example_fd_set]
         \<and> descriptors s' 7 \<noteq> None
         \<and> count_list (audio_log s') (Close 7) = 0
         \<and> filter is_Play (audio_log s') = []
         \<and> last (audio_log s') = MSG 2 ''Error: Failed to serve client on fd %d!''"
    by (auto simp add: example_server_def example_fd_set_def events_def)
  from a b b' c d show ?thesis by blast
qed

text \<open>
  C9 does not hold on the code. \<open>play_audio\<close> allocates \<open>num_samples * 2\<close> bytes for
  the samples, and the loop of \<open>spd_audio_play\<close> runs up to
  \<open>num_samples * 2 * num_channels\<close>. A frame announcing one sample on two channels, in a
  byte order other than the device's and with its two payload bytes delivered, makes the
  loop read and write past the end of the buffer
  (\<open>swap_bound_exceeds_allocation\<close> gives the reason for any frame with two or more
  channels).
\<close>

theorem play_audio_stereo_out_of_bounds:
  "play_audio (Some example_device) 7 stereo_stream = Inl OutOfBounds"
  by code_simp


end
